theory Spec2Isabelle
  imports
    Main
    "HOL-Library.Word"
    "HOL-Library.Multiset"
    "HOL-Library.Char_ord"
    "HOL-Library.List_Lexorder"
begin

section \<open>The TSS server facade (tss/tss.go)\<close>

text \<open>
  A shallow embedding of \<^verbatim>\<open>tss/tss.go\<close> (the server constructor \<^verbatim>\<open>NewTss\<close>,
  \<^verbatim>\<open>Start\<close>, \<^verbatim>\<open>Stop\<close>, \<^verbatim>\<open>requestToMsgId\<close>, \<^verbatim>\<open>joinParty\<close>) and of
  \<^verbatim>\<open>conversion.SetupBech32Prefix\<close>. Go strings and byte slices are \<open>string\<close>
  (lists of 8-bit characters); \<^verbatim>\<open>int64\<close> and \<^verbatim>\<open>time.Duration\<close> are \<open>64 word\<close>.
  Functions of other packages that the code calls are fields of the record \<open>deps\<close>.
\<close>

subsection \<open>Errors\<close>

text \<open>
  A Go \<^verbatim>\<open>error\<close>: \<^verbatim>\<open>errors.New(msg)\<close> (and \<^verbatim>\<open>fmt.Errorf\<close> without a verb), or
  \<^verbatim>\<open>fmt.Errorf("prefix%w", err)\<close>, which keeps the wrapped error.
\<close>

datatype error = ErrorNew string | ErrorWrap string error

datatype panic = Panic string

type_synonym bytes = string

subsection \<open>Requests\<close>

text \<open>
  Modelled from the spec: the declarations of \<^verbatim>\<open>keygen.Request\<close> and
  \<^verbatim>\<open>keysign.Request\<close> are in packages outside the given sources. The fields
  \<^verbatim>\<open>Keys\<close>, \<^verbatim>\<open>Messages\<close> and \<^verbatim>\<open>SignerPubKeys\<close> are the ones \<^verbatim>\<open>requestToMsgId\<close>
  reads; the others are the remaining inputs the specification lists for the two server
  operations (pool public key, block height, version).
\<close>

record keygen_Request =
  Keys :: "string list"
  keygen_BlockHeight :: "64 word"
  keygen_Version :: string

record keysign_Request =
  PoolPubKey :: string
  Messages :: "string list"
  SignerPubKeys :: "string list"
  keysign_BlockHeight :: "64 word"
  keysign_Version :: string

text \<open>
  The dynamic type of the \<^verbatim>\<open>interface{}\<close> argument of \<^verbatim>\<open>requestToMsgId\<close>: one of the
  two request types, or anything else (the \<^verbatim>\<open>default\<close> branch of the type switch).
\<close>

datatype Request =
  KeygenRequest keygen_Request
| KeysignRequest keysign_Request
| OtherRequest

subsection \<open>Values of other packages\<close>

text \<open>
  Values whose contents belong to other packages are opaque: a multiaddress and a libp2p
  peer identity (\<^verbatim>\<open>type ID string\<close>) are strings, a private key is its bytes, and the
  objects the server only holds references to are numbered handles.
\<close>

type_synonym Multiaddr = string
type_synonym PeerID = string
type_synonym PrivKey = bytes
type_synonym LocalPreParams = nat
type_synonym LocalStateManager = nat
type_synonym Communication = nat
type_synonym Host = nat
type_synonym PartyCoordinator = nat
type_synonym SignatureNotifier = nat
type_synonym Metric = nat

text \<open>A zerolog logger: the context fields it adds to every line.\<close>

datatype Logger = Logger "(string \<times> string) list"

text \<open>
  Modelled from the spec: \<^verbatim>\<open>common.TssConfig\<close> is declared outside the given sources;
  its fields are the configuration options the specification recognises, of which
  \<^verbatim>\<open>NewTss\<close> reads \<^verbatim>\<open>PreParamTimeout\<close>, \<^verbatim>\<open>PartyTimeout\<close> and \<^verbatim>\<open>EnableMonitor\<close>.
\<close>

record TssConfig =
  KeyGenTimeout :: "64 word"
  KeySignTimeout :: "64 word"
  PartyTimeout :: "64 word"
  PreParamTimeout :: "64 word"
  EnableMonitor :: bool

subsection \<open>The process-wide state\<close>

text \<open>
  The bech32 prefixes of the global \<^verbatim>\<open>sdk.Config\<close>: an address prefix and a public-key
  prefix for accounts, validators and consensus nodes.
\<close>

record Config =
  accountAddr :: string
  accountPub :: string
  validatorAddr :: string
  validatorPub :: string
  consensusAddr :: string
  consensusPub :: string

text \<open>
  A channel value is \<^verbatim>\<open>nil\<close> or a reference into the store of channels; a channel made
  by \<^verbatim>\<open>make\<close> is open until it is closed.
\<close>

datatype chan_state = ChanOpen | ChanClosed

type_synonym chan = "nat option"

text \<open>Log lines and calls into other packages, in the order they happen.\<close>

datatype event =
  LogInfo Logger string
| LogError Logger string
| CallNewFileStateMgr string
| CallRetrieveP2PAddresses LocalStateManager
| CallNewCommunication string "Multiaddr list" int string
| CallGeneratePreParams "64 word"
| CallCommStart Communication bytes
| CallNewPartyCoordinator Host "64 word"
| CallNewSignatureNotifier Host
| CallMetricEnable Metric
| CallJoinPartyWithRetry PartyCoordinator string "string list"
| CallJoinPartyWithLeader PartyCoordinator string "64 word" "string list" int chan
| CallCommStop Communication
| CallPartyCoordinatorStop PartyCoordinator

record world =
  sdkConfig :: Config
  chans :: "chan_state list"
  events :: "event list"

definition emit :: "event \<Rightarrow> world \<Rightarrow> world" where
  "emit e w = w\<lparr>events := events w @ [e]\<rparr>"

text \<open>\<^verbatim>\<open>make(chan struct{})\<close>: a fresh open channel.\<close>

definition make_chan :: "world \<Rightarrow> chan \<times> world" where
  "make_chan w = (Some (length (chans w)), w\<lparr>chans := chans w @ [ChanOpen]\<rparr>)"

text \<open>
  \<^verbatim>\<open>close(c)\<close>: closing a nil channel or a closed channel panics. (A reference
  beyond the store is not a value a Go program can hold; the model panics there too.)
\<close>

definition close :: "chan \<Rightarrow> world \<Rightarrow> panic + world" where
  "close c w =
     (case c of
        None \<Rightarrow> Inl (Panic ''close of nil channel'')
      | Some i \<Rightarrow>
          if i < length (chans w) then
            (case chans w ! i of
               ChanOpen \<Rightarrow> Inr (w\<lparr>chans := (chans w)[i := ChanClosed]\<rparr>)
             | ChanClosed \<Rightarrow> Inl (Panic ''close of closed channel''))
          else Inl (Panic ''invalid channel''))"

subsection \<open>Functions and constants of other packages\<close>

text \<open>
  What \<^verbatim>\<open>tss.go\<close> calls in the packages \<^verbatim>\<open>common\<close>, \<^verbatim>\<open>conversion\<close>, \<^verbatim>\<open>messages\<close>,
  \<^verbatim>\<open>p2p\<close>, \<^verbatim>\<open>storage\<close>, \<^verbatim>\<open>keysign\<close>, \<^verbatim>\<open>monitor\<close> and in the libraries, as parameters.
  A Go result \<^verbatim>\<open>(T, error)\<close> whose value the caller drops on error is \<open>error + T\<close>;
  the two join-party functions return their values together with the error, and
  \<^verbatim>\<open>joinParty\<close> hands both on. \<^verbatim>\<open>MarshalPubKey\<close> reads the account public-key prefix of
  the global configuration.
\<close>

record deps =
  PubKeyBytes :: "PrivKey \<Rightarrow> bytes"
  MarshalPubKey :: "Config \<Rightarrow> bytes \<Rightarrow> error + string"
  NewFileStateMgr :: "string \<Rightarrow> error + LocalStateManager"
  RetrieveP2PAddresses :: "LocalStateManager \<Rightarrow> error + Multiaddr list"
  NewCommunication :: "string \<Rightarrow> Multiaddr list \<Rightarrow> int \<Rightarrow> string \<Rightarrow> error + Communication"
  Validate :: "LocalPreParams \<Rightarrow> bool"
  GeneratePreParams :: "64 word \<Rightarrow> error + LocalPreParams"
  GetPriKeyRawBytes :: "PrivKey \<Rightarrow> error + bytes"
  CommStart :: "Communication \<Rightarrow> bytes \<Rightarrow> error option"
  GetHost :: "Communication \<Rightarrow> Host"
  NewPartyCoordinator :: "Host \<Rightarrow> 64 word \<Rightarrow> PartyCoordinator"
  NewSignatureNotifier :: "Host \<Rightarrow> SignatureNotifier"
  NewMetric :: Metric
  CommStop :: "Communication \<Rightarrow> error option"
  MsgToHashString :: "bytes \<Rightarrow> error + string"
  NEWJOINPARTYVERSION :: string
  VersionLTCheck :: "string \<Rightarrow> string \<Rightarrow> error + bool"
  GetPeerIDsFromPubKeys :: "string list \<Rightarrow> error + PeerID list"
  PeerID_String :: "PeerID \<Rightarrow> string"
  JoinPartyWithRetry ::
    "PartyCoordinator \<Rightarrow> string \<Rightarrow> string list \<Rightarrow> PeerID list \<times> error option"
  JoinPartyWithLeader ::
    "PartyCoordinator \<Rightarrow> string \<Rightarrow> 64 word \<Rightarrow> string list \<Rightarrow> int \<Rightarrow> chan
       \<Rightarrow> PeerID list \<times> string \<times> error option"

subsection \<open>The server\<close>

datatype Mutex = Mutex bool

record TssServer =
  conf :: TssConfig
  logger :: Logger
  p2pCommunication :: Communication
  localNodePubKey :: string
  preParams :: LocalPreParams
  tssKeyGenLocker :: Mutex
  stopChan :: chan
  joinPartyChan :: chan
  partyCoordinator :: PartyCoordinator
  stateManager :: LocalStateManager
  signatureNotifier :: SignatureNotifier
  privateKey :: PrivKey
  tssMetrics :: Metric

subsection \<open>Go library functions used by requestToMsgId\<close>

text \<open>
  \<^verbatim>\<open>strings.Join(elems, sep)\<close>: empty for no element, the element itself for one,
  otherwise the first element followed by \<^verbatim>\<open>sep\<close> and the next element, and so on.
\<close>

fun Join :: "string list \<Rightarrow> string \<Rightarrow> string" where
  "Join [] sep = []"
| "Join [x] sep = x"
| "Join (x # y # ys) sep = x @ sep @ Join (y # ys) sep"

text \<open>
  \<^verbatim>\<open>sort.Strings\<close> sorts in increasing order of Go's string comparison, which is
  lexicographic on bytes: the order of \<open>string\<close> given by \<open>Char_ord\<close> and
  \<open>List_Lexorder\<close>. Equal strings are indistinguishable, so the sorted result is
  the one that \<open>sort\<close> computes.
\<close>

definition Strings :: "string list \<Rightarrow> string list" where
  "Strings xs = sort xs"

text \<open>
  The loop \<^verbatim>\<open>for _, el := range keys { keyAccumulation += el }\<close>, starting from the
  empty string.
\<close>

definition keyAccumulation :: "string list \<Rightarrow> string" where
  "keyAccumulation keys = foldl (\<lambda>acc el. acc @ el) [] keys"

subsection \<open>conversion.SetupBech32Prefix\<close>

definition SetBech32PrefixForAccount :: "string \<Rightarrow> string \<Rightarrow> Config \<Rightarrow> Config" where
  "SetBech32PrefixForAccount addressPrefix pubKeyPrefix config =
     config\<lparr>accountAddr := addressPrefix, accountPub := pubKeyPrefix\<rparr>"

definition SetBech32PrefixForValidator :: "string \<Rightarrow> string \<Rightarrow> Config \<Rightarrow> Config" where
  "SetBech32PrefixForValidator addressPrefix pubKeyPrefix config =
     config\<lparr>validatorAddr := addressPrefix, validatorPub := pubKeyPrefix\<rparr>"

definition SetBech32PrefixForConsensusNode :: "string \<Rightarrow> string \<Rightarrow> Config \<Rightarrow> Config" where
  "SetBech32PrefixForConsensusNode addressPrefix pubKeyPrefix config =
     config\<lparr>consensusAddr := addressPrefix, consensusPub := pubKeyPrefix\<rparr>"

text \<open>The three setters run one after the other on the global configuration.\<close>

definition SetupBech32Prefix :: "world \<Rightarrow> world" where
  "SetupBech32Prefix w =
     (let config = sdkConfig w;
          config = SetBech32PrefixForAccount ''ordinox'' ''thorpub'' config;
          config = SetBech32PrefixForValidator ''ordinox'' ''thorvpub'' config;
          config = SetBech32PrefixForConsensusNode ''or'' ''thorcpub'' config
      in w\<lparr>sdkConfig := config\<rparr>)"

subsection \<open>NewTss\<close>

text \<open>
  The constructor returns \<^verbatim>\<open>(*TssServer, error)\<close>: \<open>Inl\<close> is the error (and a nil
  server), \<open>Inr\<close> the server. Every \<^verbatim>\<open>return nil, ...\<close> of the source is one \<open>Inl\<close>
  branch, in the source's order. The pre-parameters argument is a pointer: \<open>None\<close> is
  \<^verbatim>\<open>nil\<close>.
\<close>

text \<open>
  Lines 79 to 86: the peers handed to \<^verbatim>\<open>p2p.NewCommunication\<close>. On an error of
  \<^verbatim>\<open>RetrieveP2PAddresses\<close> they are the command-line peers; otherwise the saved peers
  with the command-line peers appended.
\<close>

definition bootstrapPeers :: "deps \<Rightarrow> LocalStateManager \<Rightarrow> Multiaddr list \<Rightarrow> Multiaddr list" where
  "bootstrapPeers d stateMgr cmdBootstrapPeers =
     (case RetrieveP2PAddresses d stateMgr of
        Inl err \<Rightarrow> cmdBootstrapPeers
      | Inr savedPeers \<Rightarrow> savedPeers @ cmdBootstrapPeers)"

text \<open>
  Lines 96 to 101: the condition \<^verbatim>\<open>preParams == nil || !preParams.Validate()\<close>, and the
  value of \<^verbatim>\<open>preParams\<close> after the \<^verbatim>\<open>if\<close> (or the error of \<^verbatim>\<open>GeneratePreParams\<close>).
\<close>

definition mustGenerate :: "deps \<Rightarrow> LocalPreParams option \<Rightarrow> bool" where
  "mustGenerate d suppliedPreParams =
     (case suppliedPreParams of None \<Rightarrow> True | Some p \<Rightarrow> \<not> Validate d p)"

definition preParamsInUse :: "deps \<Rightarrow> TssConfig \<Rightarrow> LocalPreParams option \<Rightarrow> error + LocalPreParams" where
  "preParamsInUse d cfg suppliedPreParams =
     (case suppliedPreParams of
        None \<Rightarrow> GeneratePreParams d (PreParamTimeout cfg)
      | Some p \<Rightarrow>
          if \<not> Validate d p then GeneratePreParams d (PreParamTimeout cfg) else Inr p)"

definition NewTss ::
  "deps \<Rightarrow> Multiaddr list \<Rightarrow> int \<Rightarrow> PrivKey \<Rightarrow> string \<Rightarrow> string \<Rightarrow> TssConfig
     \<Rightarrow> LocalPreParams option \<Rightarrow> string \<Rightarrow> world \<Rightarrow> (error + TssServer) \<times> world" where
  "NewTss d cmdBootstrapPeers p2pPort priKey rendezvous baseFolder cfg suppliedPreParams
       externalIP w =
     (let pk = PubKeyBytes d priKey in
      case MarshalPubKey d (sdkConfig w) pk of
        Inl err \<Rightarrow> (Inl (ErrorWrap ''fail to genearte the key: '' err), w)
      | Inr pubKey \<Rightarrow>
     (let lg = Logger [(''module'', ''tss'')];
          w = emit (LogInfo lg (''tss bech32 pubkey created, we are: '' @ pubKey)) w;
          w = emit (CallNewFileStateMgr baseFolder) w in
      case NewFileStateMgr d baseFolder of
        Inl err \<Rightarrow> (Inl (ErrorNew ''fail to create file state manager''), w)
      | Inr stateMgr \<Rightarrow>
     (let w = emit (CallRetrieveP2PAddresses stateMgr) w;
          peers = bootstrapPeers d stateMgr cmdBootstrapPeers;
          w = emit (CallNewCommunication rendezvous peers p2pPort externalIP) w in
      case NewCommunication d rendezvous peers p2pPort externalIP of
        Inl err \<Rightarrow> (Inl (ErrorWrap ''fail to create communication layer: '' err), w)
      | Inr comm \<Rightarrow>
     (let w = (if mustGenerate d suppliedPreParams
               then emit (CallGeneratePreParams (PreParamTimeout cfg)) w else w) in
      case preParamsInUse d cfg suppliedPreParams of
        Inl err \<Rightarrow> (Inl (ErrorWrap ''fail to generate pre parameters: '' err), w)
      | Inr pp \<Rightarrow>
          if \<not> Validate d pp then (Inl (ErrorNew ''invalid preparams''), w)
          else
            (case GetPriKeyRawBytes d priKey of
               Inl err \<Rightarrow> (Inl (ErrorNew ''fail to get private key''), w)
             | Inr priKeyRawBytes \<Rightarrow>
            (let w = emit (CallCommStart comm priKeyRawBytes) w in
             case CommStart d comm priKeyRawBytes of
               Some err \<Rightarrow> (Inl (ErrorWrap ''fail to start p2p network: '' err), w)
             | None \<Rightarrow>
            (let pc = NewPartyCoordinator d (GetHost d comm) (PartyTimeout cfg);
                 w = emit (CallNewPartyCoordinator (GetHost d comm) (PartyTimeout cfg)) w;
                 sn = NewSignatureNotifier d (GetHost d comm);
                 w = emit (CallNewSignatureNotifier (GetHost d comm)) w;
                 metrics = NewMetric d;
                 w = (if EnableMonitor cfg then emit (CallMetricEnable metrics) w else w);
                 (sc, w) = make_chan w;
                 tssServer =
                   \<lparr>conf = cfg,
                    logger = lg,
                    p2pCommunication = comm,
                    localNodePubKey = pubKey,
                    preParams = pp,
                    tssKeyGenLocker = Mutex False,
                    stopChan = sc,
                    joinPartyChan = None,
                    partyCoordinator = pc,
                    stateManager = stateMgr,
                    signatureNotifier = sn,
                    privateKey = priKey,
                    tssMetrics = metrics\<rparr>
             in (Inr tssServer, w))))))))"

subsection \<open>Start and Stop\<close>

text \<open>
  \<^verbatim>\<open>Start\<close> has a pointer receiver and returns an \<^verbatim>\<open>error\<close> (\<open>None\<close> is \<^verbatim>\<open>nil\<close>): the
  model returns the error and the server as the call leaves it.
\<close>

definition Start :: "TssServer \<Rightarrow> world \<Rightarrow> (error option \<times> TssServer) \<times> world" where
  "Start t w = ((None, t), emit (LogInfo (logger t) ''starting the tss servers'') w)"

text \<open>\<^verbatim>\<open>Stop\<close> returns nothing; a panic of \<^verbatim>\<open>close\<close> ends it.\<close>

definition Stop :: "deps \<Rightarrow> TssServer \<Rightarrow> world \<Rightarrow> panic + (TssServer \<times> world)" where
  "Stop d t w =
     (case close (stopChan t) w of
        Inl p \<Rightarrow> Inl p
      | Inr w \<Rightarrow>
          (let w = emit (CallCommStop (p2pCommunication t)) w;
               w = (case CommStop d (p2pCommunication t) of
                      Some err \<Rightarrow> emit (LogError (logger t) ''error in shutdown the p2p server'') w
                    | None \<Rightarrow> w);
               w = emit (CallPartyCoordinatorStop (partyCoordinator t)) w;
               w = emit (LogInfo (logger t)
                     ''The tss and p2p server has been stopped successfully'') w
           in Inr (t, w)))"

subsection \<open>requestToMsgId\<close>

text \<open>
  Returns \<^verbatim>\<open>(string, error)\<close>. \<^verbatim>\<open>sort.Strings\<close> sorts in place the slices of the request,
  which share their arrays with the caller's: the model also returns the request as the
  call leaves it.
\<close>

definition requestToMsgId ::
  "deps \<Rightarrow> TssServer \<Rightarrow> Request \<Rightarrow> world \<Rightarrow> ((error + string) \<times> Request) \<times> world" where
  "requestToMsgId d t request w =
     (case request of
        KeygenRequest val \<Rightarrow>
          (let dat = [];
               keys = Strings (Keys val);
               dat = dat @ keyAccumulation keys
           in ((MsgToHashString d dat, KeygenRequest (val\<lparr>Keys := keys\<rparr>)), w))
      | KeysignRequest val \<Rightarrow>
          (let msgs = Strings (Messages val);
               dat = Join msgs '','';
               keys = Strings (SignerPubKeys val);
               dat = dat @ keyAccumulation keys
           in ((MsgToHashString d dat,
                KeysignRequest (val\<lparr>Messages := msgs, SignerPubKeys := keys\<rparr>)), w))
      | OtherRequest \<Rightarrow>
          ((Inl (ErrorNew ''unknown request type''), OtherRequest),
           emit (LogError (logger t) ''unknown request type'') w))"

subsection \<open>joinParty\<close>

text \<open>
  The loop \<^verbatim>\<open>for _, el := range peerIDs { peersIDStr = append(peersIDStr, el.String()) }\<close>.
\<close>

definition peersIDStr :: "deps \<Rightarrow> PeerID list \<Rightarrow> string list" where
  "peersIDStr d peerIDs = foldl (\<lambda>acc el. acc @ [PeerID_String d el]) [] peerIDs"

text \<open>
  Returns \<^verbatim>\<open>([]peer.ID, string, error)\<close>: the online peers (\<open>[]\<close> is \<^verbatim>\<open>nil\<close>), the leader
  and the error (\<open>None\<close> is \<^verbatim>\<open>nil\<close>).
\<close>

definition joinParty ::
  "deps \<Rightarrow> TssServer \<Rightarrow> string \<Rightarrow> string \<Rightarrow> 64 word \<Rightarrow> string list \<Rightarrow> int \<Rightarrow> chan \<Rightarrow> world
     \<Rightarrow> (PeerID list \<times> string \<times> error option) \<times> world" where
  "joinParty d t msgID version blockHeight participants threshold sigChan w =
     (case VersionLTCheck d version (NEWJOINPARTYVERSION d) of
        Inl err \<Rightarrow>
          (([], [], Some (ErrorWrap ''fail to parse the version with error:'' err)), w)
      | Inr oldJoinParty \<Rightarrow>
          if oldJoinParty then
            (let w = emit (LogInfo (logger t) ''we apply the leadless join party'') w in
             case GetPeerIDsFromPubKeys d participants of
               Inl err \<Rightarrow>
                 (([], ''NONE'',
                   Some (ErrorWrap ''fail to convert pub key to peer id: '' err)), w)
             | Inr peerIDs \<Rightarrow>
                 (let ids = peersIDStr d peerIDs;
                      w = emit (CallJoinPartyWithRetry (partyCoordinator t) msgID ids) w;
                      (onlines, err) = JoinPartyWithRetry d (partyCoordinator t) msgID ids
                  in ((onlines, ''NONE'', err), w)))
          else
            (let w = emit (LogInfo (logger t) ''we apply the join party with a leader'') w in
             if length participants = 0 then
               (([], [], Some (ErrorNew ''no participants can be found'')),
                emit (LogError (logger t)
                  ''we fail to have any participants or passed by request'') w)
             else
               (case GetPeerIDsFromPubKeys d participants of
                  Inl err \<Rightarrow>
                    (([], [], Some (ErrorNew ''fail to convert the public key to peer ID'')), w)
                | Inr peersID \<Rightarrow>
                    (let ids = peersIDStr d peersID;
                         w = emit (CallJoinPartyWithLeader (partyCoordinator t) msgID
                               blockHeight ids threshold sigChan) w
                     in (JoinPartyWithLeader d (partyCoordinator t) msgID blockHeight ids
                           threshold sigChan, w)))))"

subsection \<open>Observing a run\<close>

text \<open>The events a run appends to the events of the state it starts from.\<close>

definition newEvents :: "world \<Rightarrow> world \<Rightarrow> event list" where
  "newEvents w w' = drop (length (events w)) (events w')"

fun isLog :: "event \<Rightarrow> bool" where
  "isLog (LogInfo lg m) = True"
| "isLog (LogError lg m) = True"
| "isLog e = False"

text \<open>The calls into other packages that a run makes, in order, without the log lines.\<close>

definition calls :: "world \<Rightarrow> world \<Rightarrow> event list" where
  "calls w w' = filter (\<lambda>e. \<not> isLog e) (newEvents w w')"

fun isJoinPartyWithRetry :: "event \<Rightarrow> bool" where
  "isJoinPartyWithRetry (CallJoinPartyWithRetry pc msgID ids) = True"
| "isJoinPartyWithRetry e = False"

fun isJoinPartyWithLeader :: "event \<Rightarrow> bool" where
  "isJoinPartyWithLeader (CallJoinPartyWithLeader pc msgID bh ids th sc) = True"
| "isJoinPartyWithLeader e = False"


fun isGeneratePreParams :: "event \<Rightarrow> bool" where
  "isGeneratePreParams (CallGeneratePreParams timeout) = True"
| "isGeneratePreParams e = False"

fun isCommStart :: "event \<Rightarrow> bool" where
  "isCommStart (CallCommStart c k) = True"
| "isCommStart e = False"

subsection \<open>A concrete instance of the parameters\<close>

text \<open>
  Simple stand-ins for the functions of the other packages, to run the model on concrete
  inputs: an empty key does not marshal, pre-parameters \<open>0\<close> are invalid, generation
  times out at timeout \<open>0\<close>, the versions \<open>0.13.0\<close> and \<open>0.14.0\<close> parse, and the key
  \<open>bad\<close> has no peer identity.
\<close>

definition test_deps :: deps where
  "test_deps =
     \<lparr>PubKeyBytes = (\<lambda>k. k),
      MarshalPubKey =
        (\<lambda>c k. if k = [] then Inl (ErrorNew ''empty key'') else Inr (accountPub c @ ''1'' @ k)),
      NewFileStateMgr =
        (\<lambda>f. if f = [] then Inl (ErrorNew ''no folder'') else Inr 10),
      RetrieveP2PAddresses = (\<lambda>m. Inr [''/ip4/10.0.0.7/tcp/6668'']),
      NewCommunication = (\<lambda>r ps port ip. Inr 20),
      Validate = (\<lambda>p. p \<noteq> 0),
      GeneratePreParams = (\<lambda>timeout. if timeout = 0 then Inl (ErrorNew ''timeout'') else Inr 77),
      GetPriKeyRawBytes = (\<lambda>k. Inr k),
      CommStart = (\<lambda>c k. None),
      GetHost = (\<lambda>c. 30),
      NewPartyCoordinator = (\<lambda>h timeout. 40),
      NewSignatureNotifier = (\<lambda>h. 50),
      NewMetric = 60,
      CommStop = (\<lambda>c. None),
      MsgToHashString =
        (\<lambda>b. if b = [] then Inl (ErrorNew ''empty message'') else Inr (''hash:'' @ b)),
      NEWJOINPARTYVERSION = ''0.14.0'',
      VersionLTCheck =
        (\<lambda>v e. if v = ''0.13.0'' then Inr True
               else if v = ''0.14.0'' then Inr False
               else Inl (ErrorNew ''fail to parse the current version'')),
      GetPeerIDsFromPubKeys =
        (\<lambda>ks. if ''bad'' \<in> set ks then Inl (ErrorNew ''invalid key'') else Inr ks),
      PeerID_String = (\<lambda>p. ''peer:'' @ p),
      JoinPartyWithRetry = (\<lambda>pc msgID ids. (ids, None)),
      JoinPartyWithLeader = (\<lambda>pc msgID bh ids th sc. (ids, ''leader'', None))\<rparr>"

definition test_conf :: TssConfig where
  "test_conf =
     \<lparr>KeyGenTimeout = 60, KeySignTimeout = 60, PartyTimeout = 30, PreParamTimeout = 5,
      EnableMonitor = True\<rparr>"

text \<open>The bech32 prefixes a process starts with (those of the Cosmos SDK).\<close>

definition test_world :: world where
  "test_world =
     \<lparr>sdkConfig =
        \<lparr>accountAddr = ''cosmos'', accountPub = ''cosmospub'',
         validatorAddr = ''cosmosvaloper'', validatorPub = ''cosmosvaloperpub'',
         consensusAddr = ''cosmosvalcons'', consensusPub = ''cosmosvalconspub''\<rparr>,
      chans = [],
      events = []\<rparr>"

definition test_server :: TssServer where
  "test_server =
     \<lparr>conf = test_conf,
      logger = Logger [(''module'', ''tss'')],
      p2pCommunication = 20,
      localNodePubKey = ''cosmospub1key'',
      preParams = 77,
      tssKeyGenLocker = Mutex False,
      stopChan = Some 0,
      joinPartyChan = None,
      partyCoordinator = 40,
      stateManager = 10,
      signatureNotifier = 50,
      privateKey = ''key'',
      tssMetrics = 60\<rparr>"

subsection \<open>The message identifier in the specification's words\<close>

text \<open>
  These three definitions follow the wording of the specification, not the code: the
  messages joined by commas, and the hash of the sorted keys (key generation) or of the
  sorted messages joined by commas followed by the sorted signer keys (key signing). The
  hash is the function \<^verbatim>\<open>MsgToHashString\<close> that the code calls.
\<close>

definition commaJoined :: "string list \<Rightarrow> string" where
  "commaJoined xs =
     (case xs of [] \<Rightarrow> [] | x # rest \<Rightarrow> x @ concat (map (\<lambda>m. '','' @ m) rest))"

definition keygenMsgIdSpec :: "deps \<Rightarrow> string list \<Rightarrow> error + string" where
  "keygenMsgIdSpec d keys = MsgToHashString d (concat (sort keys))"

definition keysignMsgIdSpec :: "deps \<Rightarrow> string list \<Rightarrow> string list \<Rightarrow> error + string" where
  "keysignMsgIdSpec d msgs keys =
     MsgToHashString d (commaJoined (sort msgs) @ concat (sort keys))"

section \<open>Properties\<close>

subsection \<open>Auxiliary facts\<close>

lemma Strings_mset: "mset xs = mset ys \<Longrightarrow> Strings xs = Strings ys"
  unfolding Strings_def by (metis properties_for_sort mset_sort sorted_sort)

lemma keyAccumulation_concat_aux: "foldl (\<lambda>acc el. acc @ el) a keys = a @ concat keys"
  by (induction keys arbitrary: a) simp_all

lemma keyAccumulation_concat: "keyAccumulation keys = concat keys"
  by (simp add: keyAccumulation_def keyAccumulation_concat_aux)

lemma Join_Cons: "Join (x # xs) sep = x @ concat (map (\<lambda>m. sep @ m) xs)"
  by (induction xs arbitrary: x) simp_all

lemma Join_commaJoined: "Join xs '','' = commaJoined xs"
proof (cases xs)
  case Nil
  then show ?thesis by (simp add: commaJoined_def)
next
  case (Cons a list)
  then show ?thesis unfolding commaJoined_def by (simp only: Join_Cons list.case)
qed

lemma peersIDStr_aux: "foldl (\<lambda>acc el. acc @ [f el]) a xs = a @ map f xs"
  by (induction xs arbitrary: a) simp_all

lemma peersIDStr_map: "peersIDStr d peerIDs = map (PeerID_String d) peerIDs"
  by (simp add: peersIDStr_def peersIDStr_aux)

lemma newEvents_append [simp]: "newEvents w (w\<lparr>events := events w @ es\<rparr>) = es"
  by (simp add: newEvents_def)

lemma newEvents_self [simp]: "newEvents w w = []"
  by (simp add: newEvents_def)

text \<open>The two branches of \<^verbatim>\<open>joinParty\<close> after the version check, with the events they add.\<close>

lemma joinParty_old:
  assumes "VersionLTCheck d version (NEWJOINPARTYVERSION d) = Inr True"
  shows "joinParty d t msgID version bh ps th sc w =
     (case GetPeerIDsFromPubKeys d ps of
        Inl err \<Rightarrow>
          (([], ''NONE'', Some (ErrorWrap ''fail to convert pub key to peer id: '' err)),
           w\<lparr>events := events w @ [LogInfo (logger t) ''we apply the leadless join party'']\<rparr>)
      | Inr peerIDs \<Rightarrow>
          ((fst (JoinPartyWithRetry d (partyCoordinator t) msgID (map (PeerID_String d) peerIDs)),
            ''NONE'',
            snd (JoinPartyWithRetry d (partyCoordinator t) msgID (map (PeerID_String d) peerIDs))),
           w\<lparr>events := events w @ [LogInfo (logger t) ''we apply the leadless join party'',
              CallJoinPartyWithRetry (partyCoordinator t) msgID
                (map (PeerID_String d) peerIDs)]\<rparr>))"
  using assms
  by (simp add: joinParty_def Let_def emit_def peersIDStr_map split: sum.splits prod.splits)

lemma joinParty_new:
  assumes "VersionLTCheck d version (NEWJOINPARTYVERSION d) = Inr False"
  shows "joinParty d t msgID version bh ps th sc w =
     (if ps = [] then
        (([], [], Some (ErrorNew ''no participants can be found'')),
         w\<lparr>events := events w @ [LogInfo (logger t) ''we apply the join party with a leader'',
            LogError (logger t) ''we fail to have any participants or passed by request'']\<rparr>)
      else
        (case GetPeerIDsFromPubKeys d ps of
           Inl err \<Rightarrow>
             (([], [], Some (ErrorNew ''fail to convert the public key to peer ID'')),
              w\<lparr>events := events w @
                 [LogInfo (logger t) ''we apply the join party with a leader'']\<rparr>)
         | Inr peersID \<Rightarrow>
             (JoinPartyWithLeader d (partyCoordinator t) msgID bh
                (map (PeerID_String d) peersID) th sc,
              w\<lparr>events := events w @ [LogInfo (logger t) ''we apply the join party with a leader'',
                 CallJoinPartyWithLeader (partyCoordinator t) msgID bh
                   (map (PeerID_String d) peersID) th sc]\<rparr>)))"
  using assms
  by (simp add: joinParty_def Let_def emit_def peersIDStr_map split: sum.splits prod.splits)

text \<open>Every run of \<^verbatim>\<open>NewTss\<close> that returns a server, with the events it adds.\<close>

lemma NewTss_Inr:
  assumes "NewTss d cmd port priKey rv bf cfg supplied ip w = (Inr srv, w')"
  shows "\<exists>pubKey sm comm pp k.
     MarshalPubKey d (sdkConfig w) (PubKeyBytes d priKey) = Inr pubKey \<and>
     NewFileStateMgr d bf = Inr sm \<and>
     NewCommunication d rv (bootstrapPeers d sm cmd) port ip = Inr comm \<and>
     preParamsInUse d cfg supplied = Inr pp \<and> Validate d pp \<and>
     GetPriKeyRawBytes d priKey = Inr k \<and>
     CommStart d comm k = None \<and>
     p2pCommunication srv = comm \<and> preParams srv = pp \<and> stateManager srv = sm \<and>
     localNodePubKey srv = pubKey \<and>
     stopChan srv = Some (length (chans w)) \<and>
     chans w' = chans w @ [ChanOpen] \<and>
     sdkConfig w' = sdkConfig w \<and>
     newEvents w w' =
       [LogInfo (Logger [(''module'', ''tss'')])
          (''tss bech32 pubkey created, we are: '' @ pubKey),
        CallNewFileStateMgr bf,
        CallRetrieveP2PAddresses sm,
        CallNewCommunication rv (bootstrapPeers d sm cmd) port ip] @
       (if mustGenerate d supplied then [CallGeneratePreParams (PreParamTimeout cfg)] else []) @
       [CallCommStart comm k,
        CallNewPartyCoordinator (GetHost d comm) (PartyTimeout cfg),
        CallNewSignatureNotifier (GetHost d comm)] @
       (if EnableMonitor cfg then [CallMetricEnable (NewMetric d)] else [])"
  using assms
  by (auto simp add: NewTss_def Let_def emit_def make_chan_def newEvents_def
      split: sum.splits option.splits if_splits prod.splits)

lemma NewTss_Inr_fst:
  assumes "fst (NewTss d cmd port priKey rv bf cfg supplied ip w) = Inr srv"
  shows "preParamsInUse d cfg supplied = Inr (preParams srv) \<and> Validate d (preParams srv) \<and>
         (\<exists>k. GetPriKeyRawBytes d priKey = Inr k \<and>
              CommStart d (p2pCommunication srv) k = None \<and>
              filter isCommStart
                (newEvents w (snd (NewTss d cmd port priKey rv bf cfg supplied ip w))) =
              [CallCommStart (p2pCommunication srv) k])"
proof -
  from assms have "NewTss d cmd port priKey rv bf cfg supplied ip w =
      (Inr srv, snd (NewTss d cmd port priKey rv bf cfg supplied ip w))"
    by (simp add: prod_eq_iff)
  from NewTss_Inr [OF this] show ?thesis by auto
qed

text \<open>The channel of a server that \<^verbatim>\<open>NewTss\<close> returns is open.\<close>

lemma NewTss_stopChan_open:
  assumes "NewTss d cmd port priKey rv bf cfg supplied ip w = (Inr srv, w')"
  shows "stopChan srv = Some (length (chans w)) \<and> length (chans w) < length (chans w') \<and>
         chans w' ! length (chans w) = ChanOpen"
  using NewTss_Inr [OF assms] by auto

lemma NewTss_sdkConfig:
  "sdkConfig (snd (NewTss d cmd port priKey rv bf cfg supplied ip w)) = sdkConfig w"
  by (simp add: NewTss_def Let_def emit_def make_chan_def
      split: sum.splits option.splits prod.splits)


lemma NewTss_generate:
  assumes "MarshalPubKey d (sdkConfig w) (PubKeyBytes d priKey) = Inr pubKey"
      and "NewFileStateMgr d bf = Inr sm"
      and "NewCommunication d rv (bootstrapPeers d sm cmd) port ip = Inr comm"
  shows "filter isGeneratePreParams
           (newEvents w (snd (NewTss d cmd port priKey rv bf cfg supplied ip w))) =
         (if mustGenerate d supplied then [CallGeneratePreParams (PreParamTimeout cfg)]
          else [])"
  using assms
  by (simp add: NewTss_def Let_def emit_def make_chan_def newEvents_def
      split: sum.splits option.splits prod.splits)

lemma NewTss_generate_error:
  assumes "MarshalPubKey d (sdkConfig w) (PubKeyBytes d priKey) = Inr pubKey"
      and "NewFileStateMgr d bf = Inr sm"
      and "NewCommunication d rv (bootstrapPeers d sm cmd) port ip = Inr comm"
      and "preParamsInUse d cfg supplied = Inl err"
  shows "fst (NewTss d cmd port priKey rv bf cfg supplied ip w) =
         Inl (ErrorWrap ''fail to generate pre parameters: '' err)"
  using assms by (simp add: NewTss_def Let_def)

lemma NewTss_invalid:
  assumes "MarshalPubKey d (sdkConfig w) (PubKeyBytes d priKey) = Inr pubKey"
      and "NewFileStateMgr d bf = Inr sm"
      and "NewCommunication d rv (bootstrapPeers d sm cmd) port ip = Inr comm"
      and "preParamsInUse d cfg supplied = Inr pp" and "\<not> Validate d pp"
  shows "fst (NewTss d cmd port priKey rv bf cfg supplied ip w) =
         Inl (ErrorNew ''invalid preparams'')"
  using assms by (simp add: NewTss_def Let_def)


text \<open>What a call recorded in the events of a run of \<^verbatim>\<open>NewTss\<close> tells about the run.\<close>

lemma NewTss_commStart_error:
  assumes "CallCommStart c k \<in>
             set (newEvents w (snd (NewTss d cmd port priKey rv bf cfg supplied ip w)))"
      and "CommStart d c k = Some err"
  shows "fst (NewTss d cmd port priKey rv bf cfg supplied ip w) =
         Inl (ErrorWrap ''fail to start p2p network: '' err)"
  using assms
  by (auto simp add: NewTss_def Let_def emit_def make_chan_def newEvents_def
      split: sum.splits option.splits prod.splits if_splits)


text \<open>A failure of \<^verbatim>\<open>RetrieveP2PAddresses\<close> is an empty list of saved peers.\<close>

lemma mustGenerate_retrieve [simp]:
  "mustGenerate (d\<lparr>RetrieveP2PAddresses := f\<rparr>) supplied = mustGenerate d supplied"
  by (cases supplied) (simp_all add: mustGenerate_def)

lemma preParamsInUse_retrieve [simp]:
  "preParamsInUse (d\<lparr>RetrieveP2PAddresses := f\<rparr>) cfg supplied =
   preParamsInUse d cfg supplied"
  by (cases supplied) (simp_all add: preParamsInUse_def)


text \<open>The condition and the outcome of the pre-parameter step.\<close>

lemma mustGenerate_iff:
  "mustGenerate d supplied \<longleftrightarrow>
   supplied = None \<or> (\<exists>p. supplied = Some p \<and> \<not> Validate d p)"
  by (cases supplied) (simp_all add: mustGenerate_def)

lemma preParamsInUse_generate:
  "mustGenerate d supplied \<Longrightarrow>
   preParamsInUse d cfg supplied = GeneratePreParams d (PreParamTimeout cfg)"
  by (cases supplied) (simp_all add: mustGenerate_def preParamsInUse_def)

lemma preParamsInUse_supplied:
  "Validate d p \<Longrightarrow> preParamsInUse d cfg (Some p) = Inr p"
  by (simp add: preParamsInUse_def)

subsection \<open>The message identifier\<close>

text \<open>
  Claim C1. Two key-signing requests whose \<^verbatim>\<open>Messages\<close> are permutations of each other
  and whose \<^verbatim>\<open>SignerPubKeys\<close> are permutations of each other get the same result of
  \<^verbatim>\<open>requestToMsgId\<close> (the same identifier, or the same error of the hash function),
  whatever the server and the state of the process.
\<close>

theorem requestToMsgId_permutation_invariant:
  assumes "mset (Messages r1) = mset (Messages r2)"
      and "mset (SignerPubKeys r1) = mset (SignerPubKeys r2)"
  shows "fst (fst (requestToMsgId d t1 (KeysignRequest r1) w1)) =
         fst (fst (requestToMsgId d t2 (KeysignRequest r2) w2))"
  using Strings_mset [OF assms(1)] Strings_mset [OF assms(2)]
  by (simp add: requestToMsgId_def Let_def)

theorem requestToMsgId_permutation_invariant_witness:
  "fst (fst (requestToMsgId test_deps test_server
      (KeysignRequest \<lparr>PoolPubKey = ''pool'', Messages = [''m2'', ''m1'', ''m3''],
         SignerPubKeys = [''kb'', ''ka''], keysign_BlockHeight = 1,
         keysign_Version = ''0.14.0''\<rparr>)
      test_world)) =
   fst (fst (requestToMsgId test_deps test_server
      (KeysignRequest \<lparr>PoolPubKey = ''pool'', Messages = [''m3'', ''m2'', ''m1''],
         SignerPubKeys = [''ka'', ''kb''], keysign_BlockHeight = 1,
         keysign_Version = ''0.14.0''\<rparr>)
      test_world))"
  by (rule requestToMsgId_permutation_invariant) simp_all

text \<open>
  Claim C2. For a key-generation request \<^verbatim>\<open>requestToMsgId\<close> returns the hash of the
  concatenation of the sorted keys, with no message data; for a key-signing request it
  returns the hash of the sorted messages joined by commas, followed by the concatenation
  of the sorted signer keys. The hash is what \<^verbatim>\<open>MsgToHashString\<close> returns, an error of
  it included.
\<close>

theorem requestToMsgId_refines_spec:
  "fst (fst (requestToMsgId d t (KeygenRequest kg) w)) = keygenMsgIdSpec d (Keys kg) \<and>
   fst (fst (requestToMsgId d t (KeysignRequest ks) w)) =
     keysignMsgIdSpec d (Messages ks) (SignerPubKeys ks)"
  by (simp add: requestToMsgId_def Let_def keygenMsgIdSpec_def keysignMsgIdSpec_def
      Strings_def keyAccumulation_concat Join_commaJoined)

subsection \<open>Joining a party\<close>

text \<open>
  Claim C3, as the code has it. When the version parses, \<^verbatim>\<open>joinParty\<close> takes the
  leaderless branch exactly when the version is strictly older than
  \<^verbatim>\<open>NEWJOINPARTYVERSION\<close>, and the leader branch otherwise (the first log line tells
  which). \<^verbatim>\<open>JoinPartyWithRetry\<close> is invoked exactly when the version is older and the
  participants' keys convert to peer identities; \<^verbatim>\<open>JoinPartyWithLeader\<close> is invoked
  exactly when the version is not older, there is at least one participant and the keys
  convert. When one of them is invoked it is the only call and its result is returned (with
  the leader \<^verbatim>\<open>NONE\<close> for the leaderless variant). In the three remaining cases
  \<^verbatim>\<open>joinParty\<close> returns an error, with no online peer, and calls nothing.
\<close>

theorem joinParty_variant_selection:
  assumes "VersionLTCheck d version (NEWJOINPARTYVERSION d) = Inr older"
  shows "take 1 (newEvents w (snd (joinParty d t msgID version bh ps th sc w))) =
           [LogInfo (logger t) (if older then ''we apply the leadless join party''
                                else ''we apply the join party with a leader'')] \<and>
         (list_ex isJoinPartyWithRetry
            (newEvents w (snd (joinParty d t msgID version bh ps th sc w)))
            \<longleftrightarrow> older \<and> \<not> isl (GetPeerIDsFromPubKeys d ps)) \<and>
         (list_ex isJoinPartyWithLeader
            (newEvents w (snd (joinParty d t msgID version bh ps th sc w)))
            \<longleftrightarrow> \<not> older \<and> ps \<noteq> [] \<and> \<not> isl (GetPeerIDsFromPubKeys d ps)) \<and>
         (\<forall>ids. older \<and> GetPeerIDsFromPubKeys d ps = Inr ids \<longrightarrow>
            fst (joinParty d t msgID version bh ps th sc w) =
              (fst (JoinPartyWithRetry d (partyCoordinator t) msgID
                      (map (PeerID_String d) ids)),
               ''NONE'',
               snd (JoinPartyWithRetry d (partyCoordinator t) msgID
                      (map (PeerID_String d) ids))) \<and>
            calls w (snd (joinParty d t msgID version bh ps th sc w)) =
              [CallJoinPartyWithRetry (partyCoordinator t) msgID
                 (map (PeerID_String d) ids)]) \<and>
         (\<forall>ids. \<not> older \<and> ps \<noteq> [] \<and> GetPeerIDsFromPubKeys d ps = Inr ids \<longrightarrow>
            fst (joinParty d t msgID version bh ps th sc w) =
              JoinPartyWithLeader d (partyCoordinator t) msgID bh
                (map (PeerID_String d) ids) th sc \<and>
            calls w (snd (joinParty d t msgID version bh ps th sc w)) =
              [CallJoinPartyWithLeader (partyCoordinator t) msgID bh
                 (map (PeerID_String d) ids) th sc]) \<and>
         (\<forall>err. older \<and> GetPeerIDsFromPubKeys d ps = Inl err \<longrightarrow>
            fst (joinParty d t msgID version bh ps th sc w) =
              ([], ''NONE'', Some (ErrorWrap ''fail to convert pub key to peer id: '' err)) \<and>
            calls w (snd (joinParty d t msgID version bh ps th sc w)) = []) \<and>
         (\<not> older \<and> ps = [] \<longrightarrow>
            fst (joinParty d t msgID version bh ps th sc w) =
              ([], [], Some (ErrorNew ''no participants can be found'')) \<and>
            calls w (snd (joinParty d t msgID version bh ps th sc w)) = []) \<and>
         (\<forall>err. \<not> older \<and> ps \<noteq> [] \<and> GetPeerIDsFromPubKeys d ps = Inl err \<longrightarrow>
            fst (joinParty d t msgID version bh ps th sc w) =
              ([], [], Some (ErrorNew ''fail to convert the public key to peer ID'')) \<and>
            calls w (snd (joinParty d t msgID version bh ps th sc w)) = [])"
proof (cases older)
  case True
  with assms have v: "VersionLTCheck d version (NEWJOINPARTYVERSION d) = Inr True" by simp
  show ?thesis
    using True by (auto simp add: joinParty_old [OF v] calls_def split: sum.splits)
next
  case False
  with assms have v: "VersionLTCheck d version (NEWJOINPARTYVERSION d) = Inr False" by simp
  show ?thesis
    using False by (auto simp add: joinParty_new [OF v] calls_def split: sum.splits)
qed

theorem joinParty_variant_selection_witness:
  "list_ex isJoinPartyWithRetry
       (newEvents test_world
          (snd (joinParty test_deps test_server ''msg'' ''0.13.0'' 5 [''k1'', ''k2''] 1 None
             test_world))) \<and>
   list_ex isJoinPartyWithLeader
       (newEvents test_world
          (snd (joinParty test_deps test_server ''msg'' ''0.14.0'' 5 [''k1'', ''k2''] 1 None
             test_world))) \<and>
   fst (joinParty test_deps test_server ''msg'' ''0.14.0'' 5 [''k1'', ''k2''] 1 None
          test_world) = ([''peer:k1'', ''peer:k2''], ''leader'', None) \<and>
   fst (joinParty test_deps test_server ''msg'' ''0.13.0'' 5 [''bad''] 1 None test_world) =
     ([], ''NONE'',
      Some (ErrorWrap ''fail to convert pub key to peer id: '' (ErrorNew ''invalid key''))) \<and>
   calls test_world
     (snd (joinParty test_deps test_server ''msg'' ''0.13.0'' 5 [''bad''] 1 None
        test_world)) = [] \<and>
   fst (joinParty test_deps test_server ''msg'' ''0.14.0'' 5 [''bad''] 1 None test_world) =
     ([], [], Some (ErrorNew ''fail to convert the public key to peer ID'')) \<and>
   calls test_world
     (snd (joinParty test_deps test_server ''msg'' ''0.14.0'' 5 [''bad''] 1 None
        test_world)) = [] \<and>
   fst (joinParty test_deps test_server ''msg'' ''0.14.0'' 5 [] 1 None test_world) =
     ([], [], Some (ErrorNew ''no participants can be found''))"
  using joinParty_variant_selection
          [of test_deps "''0.13.0''" True test_world test_server "''msg''" 5
              "[''k1'', ''k2'']" 1 None]
        joinParty_variant_selection
          [of test_deps "''0.14.0''" False test_world test_server "''msg''" 5
              "[''k1'', ''k2'']" 1 None]
        joinParty_variant_selection
          [of test_deps "''0.13.0''" True test_world test_server "''msg''" 5
              "[''bad'']" 1 None]
        joinParty_variant_selection
          [of test_deps "''0.14.0''" False test_world test_server "''msg''" 5
              "[''bad'']" 1 None]
        joinParty_variant_selection
          [of test_deps "''0.14.0''" False test_world test_server "''msg''" 5
              "[]" 1 None]
  by (simp add: test_deps_def test_server_def)

text \<open>
  Claim C3 as stated fails: with an older version and a key that has no peer identity the
  leaderless variant \<^verbatim>\<open>JoinPartyWithRetry\<close> is not invoked, and with a version that is not
  older and no participant the leader-based variant \<^verbatim>\<open>JoinPartyWithLeader\<close> is not
  invoked.
\<close>

theorem joinParty_variant_not_invoked:
  "VersionLTCheck test_deps ''0.13.0'' (NEWJOINPARTYVERSION test_deps) = Inr True \<and>
   \<not> list_ex isJoinPartyWithRetry
       (newEvents test_world
          (snd (joinParty test_deps test_server ''msg'' ''0.13.0'' 5 [''bad''] 1 None
             test_world))) \<and>
   VersionLTCheck test_deps ''0.14.0'' (NEWJOINPARTYVERSION test_deps) = Inr False \<and>
   \<not> list_ex isJoinPartyWithLeader
       (newEvents test_world
          (snd (joinParty test_deps test_server ''msg'' ''0.14.0'' 5 [] 1 None test_world)))"
  by (simp add: joinParty_def test_deps_def Let_def emit_def newEvents_def test_world_def)

text \<open>
  Claim C8. When the version is not older than \<^verbatim>\<open>NEWJOINPARTYVERSION\<close> (the leader-based
  variant), \<^verbatim>\<open>joinParty\<close> with no participant returns the error
  \<^verbatim>\<open>no participants can be found\<close> with no online peer and no leader, and calls nothing
  in another package: the party coordinator is not invoked. When the version is older (the
  leaderless variant) and the empty list converts, \<^verbatim>\<open>JoinPartyWithRetry\<close> is invoked with
  no participant and its result is returned.
\<close>

theorem joinParty_leader_rejects_no_participants:
  "(VersionLTCheck d version (NEWJOINPARTYVERSION d) = Inr False \<longrightarrow>
      fst (joinParty d t msgID version bh [] th sc w) =
        ([], [], Some (ErrorNew ''no participants can be found'')) \<and>
      calls w (snd (joinParty d t msgID version bh [] th sc w)) = []) \<and>
   (VersionLTCheck d version (NEWJOINPARTYVERSION d) = Inr True \<and>
    GetPeerIDsFromPubKeys d [] = Inr ids \<longrightarrow>
      fst (joinParty d t msgID version bh [] th sc w) =
        (fst (JoinPartyWithRetry d (partyCoordinator t) msgID (map (PeerID_String d) ids)),
         ''NONE'',
         snd (JoinPartyWithRetry d (partyCoordinator t) msgID (map (PeerID_String d) ids))) \<and>
      calls w (snd (joinParty d t msgID version bh [] th sc w)) =
        [CallJoinPartyWithRetry (partyCoordinator t) msgID (map (PeerID_String d) ids)])"
  by (auto simp add: joinParty_old joinParty_new calls_def)

theorem joinParty_leader_rejects_no_participants_witness:
  "fst (joinParty test_deps test_server ''msg'' ''0.14.0'' 5 [] 1 None test_world) =
        ([], [], Some (ErrorNew ''no participants can be found'')) \<and>
   calls test_world
     (snd (joinParty test_deps test_server ''msg'' ''0.14.0'' 5 [] 1 None test_world)) = [] \<and>
   fst (joinParty test_deps test_server ''msg'' ''0.13.0'' 5 [] 1 None test_world) =
        ([], ''NONE'', None) \<and>
   calls test_world
     (snd (joinParty test_deps test_server ''msg'' ''0.13.0'' 5 [] 1 None test_world)) =
        [CallJoinPartyWithRetry 40 ''msg'' []]"
  using joinParty_leader_rejects_no_participants
          [of test_deps "''0.14.0''" test_server "''msg''" 5 1 None test_world "[]"]
        joinParty_leader_rejects_no_participants
          [of test_deps "''0.13.0''" test_server "''msg''" 5 1 None test_world "[]"]
  by (simp add: test_deps_def test_server_def)

text \<open>
  Claim C10. When the version is older than \<^verbatim>\<open>NEWJOINPARTYVERSION\<close> (the leaderless
  path), the leader that \<^verbatim>\<open>joinParty\<close> returns is \<^verbatim>\<open>NONE\<close>: with the conversion error and
  no call of the coordinator when the keys do not convert to peer identities, and with the
  online peers and the error of \<^verbatim>\<open>JoinPartyWithRetry\<close>, invoked once, when they do.
\<close>

theorem joinParty_leaderless_leader_NONE:
  assumes "VersionLTCheck d version (NEWJOINPARTYVERSION d) = Inr True"
  shows "fst (snd (fst (joinParty d t msgID version bh ps th sc w))) = ''NONE'' \<and>
         (\<forall>err. GetPeerIDsFromPubKeys d ps = Inl err \<longrightarrow>
            fst (joinParty d t msgID version bh ps th sc w) =
              ([], ''NONE'', Some (ErrorWrap ''fail to convert pub key to peer id: '' err)) \<and>
            calls w (snd (joinParty d t msgID version bh ps th sc w)) = []) \<and>
         (\<forall>peerIDs. GetPeerIDsFromPubKeys d ps = Inr peerIDs \<longrightarrow>
            fst (joinParty d t msgID version bh ps th sc w) =
              (fst (JoinPartyWithRetry d (partyCoordinator t) msgID
                      (map (PeerID_String d) peerIDs)),
               ''NONE'',
               snd (JoinPartyWithRetry d (partyCoordinator t) msgID
                      (map (PeerID_String d) peerIDs))) \<and>
            calls w (snd (joinParty d t msgID version bh ps th sc w)) =
              [CallJoinPartyWithRetry (partyCoordinator t) msgID
                 (map (PeerID_String d) peerIDs)])"
  by (auto simp add: joinParty_old [OF assms] calls_def split: sum.splits)

theorem joinParty_leaderless_leader_NONE_witness:
  "fst (joinParty test_deps test_server ''msg'' ''0.13.0'' 5 [''bad''] 1 None test_world) =
     ([], ''NONE'',
      Some (ErrorWrap ''fail to convert pub key to peer id: '' (ErrorNew ''invalid key''))) \<and>
   fst (joinParty test_deps test_server ''msg'' ''0.13.0'' 5 [''k1''] 1 None test_world) =
     ([''peer:k1''], ''NONE'', None) \<and>
   calls test_world
     (snd (joinParty test_deps test_server ''msg'' ''0.13.0'' 5 [''k1''] 1 None test_world)) =
     [CallJoinPartyWithRetry 40 ''msg'' [''peer:k1'']]"
  using joinParty_leaderless_leader_NONE
          [of test_deps "''0.13.0''" test_server "''msg''" 5 "[''bad'']" 1 None test_world]
        joinParty_leaderless_leader_NONE
          [of test_deps "''0.13.0''" test_server "''msg''" 5 "[''k1'']" 1 None test_world]
  by (simp add: test_deps_def test_server_def)

subsection \<open>The constructor\<close>

text \<open>
  Claim C4, as the code has it. In every run of \<^verbatim>\<open>NewTss\<close> that gets as far as the
  pre-parameter step (the public key marshals, the state manager and the communication
  layer are created): when the supplied pre-parameters are \<^verbatim>\<open>nil\<close> or fail
  \<^verbatim>\<open>Validate\<close>, \<^verbatim>\<open>GeneratePreParams\<close> is called once, with \<^verbatim>\<open>PreParamTimeout\<close>; its
  error is returned wrapped, a result that fails \<^verbatim>\<open>Validate\<close> gives the error
  \<^verbatim>\<open>invalid preparams\<close>, and a server that is returned holds the generated
  pre-parameters. When the supplied pre-parameters pass \<^verbatim>\<open>Validate\<close> nothing is
  generated and a server that is returned holds them. No server is returned with
  pre-parameters that fail \<^verbatim>\<open>Validate\<close>. (\<^verbatim>\<open>Validate\<close> reads the pre-parameters only:
  it is a function of them.)
\<close>

theorem NewTss_preParams_step:
  assumes marshal: "MarshalPubKey d (sdkConfig w) (PubKeyBytes d priKey) = Inr pubKey"
      and manager: "NewFileStateMgr d bf = Inr sm"
      and comm: "NewCommunication d rv (bootstrapPeers d sm cmd) port ip = Inr comm"
  shows "(supplied = None \<or> (\<exists>p. supplied = Some p \<and> \<not> Validate d p) \<longrightarrow>
            filter isGeneratePreParams
              (newEvents w (snd (NewTss d cmd port priKey rv bf cfg supplied ip w))) =
              [CallGeneratePreParams (PreParamTimeout cfg)] \<and>
            (\<forall>err. GeneratePreParams d (PreParamTimeout cfg) = Inl err \<longrightarrow>
               fst (NewTss d cmd port priKey rv bf cfg supplied ip w) =
                 Inl (ErrorWrap ''fail to generate pre parameters: '' err)) \<and>
            (\<forall>pp. GeneratePreParams d (PreParamTimeout cfg) = Inr pp \<and> \<not> Validate d pp \<longrightarrow>
               fst (NewTss d cmd port priKey rv bf cfg supplied ip w) =
                 Inl (ErrorNew ''invalid preparams'')) \<and>
            (\<forall>srv. fst (NewTss d cmd port priKey rv bf cfg supplied ip w) = Inr srv \<longrightarrow>
               GeneratePreParams d (PreParamTimeout cfg) = Inr (preParams srv))) \<and>
         (\<forall>p. supplied = Some p \<and> Validate d p \<longrightarrow>
            filter isGeneratePreParams
              (newEvents w (snd (NewTss d cmd port priKey rv bf cfg supplied ip w))) = [] \<and>
            (\<forall>srv. fst (NewTss d cmd port priKey rv bf cfg supplied ip w) = Inr srv \<longrightarrow>
               preParams srv = p)) \<and>
         (\<forall>srv. fst (NewTss d cmd port priKey rv bf cfg supplied ip w) = Inr srv \<longrightarrow>
            Validate d (preParams srv))"
proof (intro conjI impI allI)
  assume "supplied = None \<or> (\<exists>p. supplied = Some p \<and> \<not> Validate d p)"
  then have g: "mustGenerate d supplied" by (simp add: mustGenerate_iff)
  show "filter isGeneratePreParams
          (newEvents w (snd (NewTss d cmd port priKey rv bf cfg supplied ip w))) =
        [CallGeneratePreParams (PreParamTimeout cfg)]"
    using g by (simp add: NewTss_generate [OF marshal manager comm])
  show "fst (NewTss d cmd port priKey rv bf cfg supplied ip w) =
          Inl (ErrorWrap ''fail to generate pre parameters: '' err)"
    if "GeneratePreParams d (PreParamTimeout cfg) = Inl err" for err
    using that preParamsInUse_generate [OF g, of cfg]
    by (simp add: NewTss_generate_error [OF marshal manager comm])
  show "fst (NewTss d cmd port priKey rv bf cfg supplied ip w) =
          Inl (ErrorNew ''invalid preparams'')"
    if "GeneratePreParams d (PreParamTimeout cfg) = Inr pp \<and> \<not> Validate d pp" for pp
    using that preParamsInUse_generate [OF g, of cfg]
    by (simp add: NewTss_invalid [OF marshal manager comm])
  show "GeneratePreParams d (PreParamTimeout cfg) = Inr (preParams srv)"
    if "fst (NewTss d cmd port priKey rv bf cfg supplied ip w) = Inr srv" for srv
    using NewTss_Inr_fst [OF that] preParamsInUse_generate [OF g, of cfg] by simp
next
  fix p
  assume p: "supplied = Some p \<and> Validate d p"
  then have "\<not> mustGenerate d supplied" by (simp add: mustGenerate_def)
  then show "filter isGeneratePreParams
          (newEvents w (snd (NewTss d cmd port priKey rv bf cfg supplied ip w))) = []"
    by (simp add: NewTss_generate [OF marshal manager comm])
  show "preParams srv = p"
    if "fst (NewTss d cmd port priKey rv bf cfg supplied ip w) = Inr srv" for srv
    using NewTss_Inr_fst [OF that] p by (simp add: preParamsInUse_supplied)
next
  fix srv
  assume "fst (NewTss d cmd port priKey rv bf cfg supplied ip w) = Inr srv"
  from NewTss_Inr_fst [OF this] show "Validate d (preParams srv)" by simp
qed

theorem NewTss_preParams_step_witness:
  "filter isGeneratePreParams
     (newEvents test_world
        (snd (NewTss test_deps [''/ip4/10.0.0.9/tcp/6668''] 6668 ''key'' ''rv'' ''folder''
                test_conf None ''1.2.3.4'' test_world))) = [CallGeneratePreParams 5] \<and>
   filter isGeneratePreParams
     (newEvents test_world
        (snd (NewTss test_deps [''/ip4/10.0.0.9/tcp/6668''] 6668 ''key'' ''rv'' ''folder''
                test_conf (Some 0) ''1.2.3.4'' test_world))) = [CallGeneratePreParams 5] \<and>
   fst (NewTss test_deps [''/ip4/10.0.0.9/tcp/6668''] 6668 ''key'' ''rv'' ''folder''
          (test_conf\<lparr>PreParamTimeout := 0\<rparr>) (Some 0) ''1.2.3.4'' test_world) =
     Inl (ErrorWrap ''fail to generate pre parameters: '' (ErrorNew ''timeout'')) \<and>
   fst (NewTss (test_deps\<lparr>GeneratePreParams := (\<lambda>timeout. Inr 0)\<rparr>)
          [''/ip4/10.0.0.9/tcp/6668''] 6668 ''key'' ''rv'' ''folder''
          test_conf None ''1.2.3.4'' test_world) = Inl (ErrorNew ''invalid preparams'') \<and>
   filter isGeneratePreParams
     (newEvents test_world
        (snd (NewTss test_deps [''/ip4/10.0.0.9/tcp/6668''] 6668 ''key'' ''rv'' ''folder''
                test_conf (Some 3) ''1.2.3.4'' test_world))) = []"
  using NewTss_preParams_step
          [of test_deps test_world "''key''" "''cosmospub1key''" "''folder''" 10 "''rv''"
              "[''/ip4/10.0.0.9/tcp/6668'']" 6668 "''1.2.3.4''" 20 None test_conf]
        NewTss_preParams_step
          [of test_deps test_world "''key''" "''cosmospub1key''" "''folder''" 10 "''rv''"
              "[''/ip4/10.0.0.9/tcp/6668'']" 6668 "''1.2.3.4''" 20 "Some 0" test_conf]
        NewTss_preParams_step
          [of test_deps test_world "''key''" "''cosmospub1key''" "''folder''" 10 "''rv''"
              "[''/ip4/10.0.0.9/tcp/6668'']" 6668 "''1.2.3.4''" 20 "Some 0"
              "test_conf\<lparr>PreParamTimeout := 0\<rparr>"]
        NewTss_preParams_step
          [of "test_deps\<lparr>GeneratePreParams := (\<lambda>timeout. Inr 0)\<rparr>" test_world "''key''"
              "''cosmospub1key''" "''folder''" 10 "''rv''"
              "[''/ip4/10.0.0.9/tcp/6668'']" 6668 "''1.2.3.4''" 20 None test_conf]
        NewTss_preParams_step
          [of test_deps test_world "''key''" "''cosmospub1key''" "''folder''" 10 "''rv''"
              "[''/ip4/10.0.0.9/tcp/6668'']" 6668 "''1.2.3.4''" 20 "Some 3" test_conf]
  by (simp add: test_deps_def test_world_def test_conf_def bootstrapPeers_def)

text \<open>
  Claim C4 as stated, for every invocation, fails: when the state manager cannot be
  created \<^verbatim>\<open>NewTss\<close> returns that error before the pre-parameter step, and with
  \<^verbatim>\<open>nil\<close> pre-parameters nothing is generated.
\<close>

theorem NewTss_early_failure_generates_nothing:
  "fst (NewTss test_deps [] 6668 ''key'' ''rv'' [] test_conf None ''1.2.3.4'' test_world) =
     Inl (ErrorNew ''fail to create file state manager'') \<and>
   filter isGeneratePreParams
     (newEvents test_world
        (snd (NewTss test_deps [] 6668 ''key'' ''rv'' [] test_conf None ''1.2.3.4''
                test_world))) = []"
  by (simp add: NewTss_def test_deps_def test_world_def Let_def emit_def newEvents_def)

text \<open>
  Claim C5, as the code has it. \<^verbatim>\<open>SetupBech32Prefix\<close> is idempotent: it writes the same six
  prefixes into the global configuration on every call, whatever the configuration holds
  (there is no guard that makes a later call do nothing), and changes nothing else.
  \<^verbatim>\<open>NewTss\<close> does not call it: the constructor leaves the global configuration as it
  finds it.
\<close>

theorem SetupBech32Prefix_idempotent_unguarded:
  "SetupBech32Prefix (SetupBech32Prefix w) = SetupBech32Prefix w \<and>
   sdkConfig (SetupBech32Prefix w) =
     \<lparr>accountAddr = ''ordinox'', accountPub = ''thorpub'',
      validatorAddr = ''ordinox'', validatorPub = ''thorvpub'',
      consensusAddr = ''or'', consensusPub = ''thorcpub''\<rparr> \<and>
   chans (SetupBech32Prefix w) = chans w \<and>
   events (SetupBech32Prefix w) = events w \<and>
   sdkConfig (snd (NewTss d cmd port priKey rv bf cfg supplied ip w)) = sdkConfig w"
  by (simp add: SetupBech32Prefix_def Let_def SetBech32PrefixForAccount_def
      SetBech32PrefixForValidator_def SetBech32PrefixForConsensusNode_def NewTss_sdkConfig)

text \<open>
  Claim C5 as stated fails. From the prefixes a process starts with, \<^verbatim>\<open>NewTss\<close>
  returns a server whose public key has the prefix it found, and the global configuration
  is still the one it found, not the one \<^verbatim>\<open>SetupBech32Prefix\<close> writes. And a call of
  \<^verbatim>\<open>SetupBech32Prefix\<close> that follows an earlier one is not skipped: it overwrites
  prefixes set in between.
\<close>

theorem NewTss_does_not_setup_bech32_prefix:
  "localNodePubKey (projr (fst (NewTss test_deps [] 6668 ''key'' ''rv'' ''folder'' test_conf
      None ''1.2.3.4'' test_world))) = ''cosmospub1key'' \<and>
   \<not> isl (fst (NewTss test_deps [] 6668 ''key'' ''rv'' ''folder'' test_conf
      None ''1.2.3.4'' test_world)) \<and>
   sdkConfig (snd (NewTss test_deps [] 6668 ''key'' ''rv'' ''folder'' test_conf
      None ''1.2.3.4'' test_world)) = sdkConfig test_world \<and>
   sdkConfig test_world \<noteq> sdkConfig (SetupBech32Prefix test_world) \<and>
   sdkConfig (SetupBech32Prefix
      ((SetupBech32Prefix test_world)\<lparr>sdkConfig := sdkConfig test_world\<rparr>)) \<noteq>
     sdkConfig test_world"
  by (simp add: NewTss_def test_deps_def test_conf_def test_world_def Let_def emit_def
      make_chan_def mustGenerate_def preParamsInUse_def bootstrapPeers_def
      SetupBech32Prefix_def SetBech32PrefixForAccount_def
      SetBech32PrefixForValidator_def SetBech32PrefixForConsensusNode_def)

text \<open>
  Claim C6. Every server that \<^verbatim>\<open>NewTss\<close> returns has had its transport started inside
  the constructor: \<^verbatim>\<open>comm.Start\<close> was called once, on the communication layer the server
  holds, with the raw bytes of the private key, and returned no error. Whenever the
  constructor calls \<^verbatim>\<open>comm.Start\<close> and it returns an error, \<^verbatim>\<open>NewTss\<close> returns that
  error wrapped, and no server. \<^verbatim>\<open>Start\<close> returns \<^verbatim>\<open>nil\<close>, leaves the server as it is,
  writes one log line and calls nothing, for every server and state.
\<close>

theorem NewTss_starts_transport_Start_does_nothing:
  "(\<forall>srv. fst (NewTss d cmd port priKey rv bf cfg supplied ip w) = Inr srv \<longrightarrow>
      (\<exists>k. GetPriKeyRawBytes d priKey = Inr k \<and>
           CommStart d (p2pCommunication srv) k = None \<and>
           filter isCommStart
             (newEvents w (snd (NewTss d cmd port priKey rv bf cfg supplied ip w))) =
             [CallCommStart (p2pCommunication srv) k])) \<and>
   (\<forall>c k err.
      CallCommStart c k \<in>
        set (newEvents w (snd (NewTss d cmd port priKey rv bf cfg supplied ip w))) \<and>
      CommStart d c k = Some err \<longrightarrow>
      fst (NewTss d cmd port priKey rv bf cfg supplied ip w) =
        Inl (ErrorWrap ''fail to start p2p network: '' err)) \<and>
   Start t w0 = ((None, t), w0\<lparr>events := events w0 @
      [LogInfo (logger t) ''starting the tss servers'']\<rparr>) \<and>
   calls w0 (snd (Start t w0)) = []"
proof (intro conjI allI impI)
  fix srv
  assume "fst (NewTss d cmd port priKey rv bf cfg supplied ip w) = Inr srv"
  from NewTss_Inr_fst [OF this]
  show "\<exists>k. GetPriKeyRawBytes d priKey = Inr k \<and>
           CommStart d (p2pCommunication srv) k = None \<and>
           filter isCommStart
             (newEvents w (snd (NewTss d cmd port priKey rv bf cfg supplied ip w))) =
             [CallCommStart (p2pCommunication srv) k]"
    by simp
next
  fix c k err
  assume "CallCommStart c k \<in>
        set (newEvents w (snd (NewTss d cmd port priKey rv bf cfg supplied ip w))) \<and>
      CommStart d c k = Some err"
  then show "fst (NewTss d cmd port priKey rv bf cfg supplied ip w) =
        Inl (ErrorWrap ''fail to start p2p network: '' err)"
    using NewTss_commStart_error by blast
next
  show "Start t w0 = ((None, t), w0\<lparr>events := events w0 @
      [LogInfo (logger t) ''starting the tss servers'']\<rparr>)"
    by (simp add: Start_def emit_def)
  show "calls w0 (snd (Start t w0)) = []"
    by (simp add: Start_def emit_def calls_def)
qed

theorem NewTss_starts_transport_Start_does_nothing_witness:
  "filter isCommStart
     (newEvents test_world
        (snd (NewTss test_deps [] 6668 ''key'' ''rv'' ''folder'' test_conf None ''1.2.3.4''
                test_world))) = [CallCommStart 20 ''key''] \<and>
   fst (NewTss (test_deps\<lparr>CommStart := (\<lambda>c k. Some (ErrorNew ''port in use''))\<rparr>) [] 6668
          ''key'' ''rv'' ''folder'' test_conf None ''1.2.3.4'' test_world) =
     Inl (ErrorWrap ''fail to start p2p network: '' (ErrorNew ''port in use'')) \<and>
   fst (Start test_server test_world) = (None, test_server)"
  using NewTss_starts_transport_Start_does_nothing
          [of test_deps "[]" 6668 "''key''" "''rv''" "''folder''" test_conf None "''1.2.3.4''"
              test_world test_server test_world]
        NewTss_starts_transport_Start_does_nothing
          [of "test_deps\<lparr>CommStart := (\<lambda>c k. Some (ErrorNew ''port in use''))\<rparr>" "[]" 6668
              "''key''" "''rv''" "''folder''" test_conf None "''1.2.3.4''"
              test_world test_server test_world]
  by (simp add: NewTss_def test_deps_def test_conf_def test_world_def Let_def emit_def
      make_chan_def mustGenerate_def preParamsInUse_def bootstrapPeers_def newEvents_def)



subsection \<open>Stopping the server\<close>

text \<open>
  Claim C9. On a server whose stop channel is open (as it is in every server that
  \<^verbatim>\<open>NewTss\<close> returns), the first call of \<^verbatim>\<open>Stop\<close> returns, closes the stop channel and
  stops the p2p communication and then the party coordinator; a second call of \<^verbatim>\<open>Stop\<close>
  on the same server, in the state the first call leaves, panics with
  \<^verbatim>\<open>close of closed channel\<close>.
\<close>

theorem Stop_not_idempotent:
  assumes "stopChan t = Some i" and "i < length (chans w)" and "chans w ! i = ChanOpen"
  shows "\<exists>w'. Stop d t w = Inr (t, w') \<and>
              chans w' = (chans w)[i := ChanClosed] \<and>
              calls w w' =
                [CallCommStop (p2pCommunication t),
                 CallPartyCoordinatorStop (partyCoordinator t)] \<and>
              Stop d t w' = Inl (Panic ''close of closed channel'')"
  using assms
  by (simp add: Stop_def close_def Let_def emit_def calls_def newEvents_def
      split: option.splits)

theorem Stop_not_idempotent_witness:
  "\<exists>w'. Stop test_deps test_server (test_world\<lparr>chans := [ChanOpen]\<rparr>) =
           Inr (test_server, w') \<and>
         chans w' = [ChanClosed] \<and>
         calls (test_world\<lparr>chans := [ChanOpen]\<rparr>) w' =
           [CallCommStop 20, CallPartyCoordinatorStop 40] \<and>
         Stop test_deps test_server w' = Inl (Panic ''close of closed channel'')"
  using Stop_not_idempotent [of test_server 0 "test_world\<lparr>chans := [ChanOpen]\<rparr>" test_deps]
  by (simp add: test_server_def)

end
